theory Spec2Isabelle
  imports Complex_Main "HOL-Library.Sublist" "HOL-Library.Log_Nat"
begin

section \<open>Values of the host language\<close>

text \<open>
  The module \<^verbatim>\<open>sdk/src/utils.ts\<close> consists of four functions:
  \<^verbatim>\<open>logAndThrow\<close>, \<^verbatim>\<open>parseJSON\<close>, \<^verbatim>\<open>get\<close> and \<^verbatim>\<open>post\<close>.
  A string of the host language is a sequence of UTF-16 code units; a code unit is
  written as a natural number and a text constant is lifted with \<open>lit\<close>.
\<close>

type_synonym js_string = "nat list"

definition lit :: "string \<Rightarrow> js_string" where
  "lit cs = map of_char cs"

text \<open>
  What a \<^verbatim>\<open>throw\<close> can carry in this module: \<^verbatim>\<open>new Error(message)\<close> of the
  module itself, the \<^verbatim>\<open>SyntaxError\<close> and \<^verbatim>\<open>TypeError\<close> of the built-ins (their
  message texts are implementation-defined and not modelled), and whatever the transport
  rejects with, kept as an opaque label.
\<close>

datatype js_error =
    Error js_string
  | SyntaxError
  | TypeError
  | TransportError js_string

subsection \<open>Number to text\<close>

text \<open>
  \<^verbatim>\<open>response.status + " could not get URL " + url\<close> converts the status, a
  non-negative integer, to its decimal digits.
\<close>

definition digit_char :: "nat \<Rightarrow> nat" where
  "digit_char d = 48 + d"

fun number_to_string :: "nat \<Rightarrow> js_string" where
  "number_to_string n =
     (if n < 10 then [digit_char n]
      else number_to_string (n div 10) @ [digit_char (n mod 10)])"

declare number_to_string.simps [simp del]

section \<open>The environment: log sink, object store, transport\<close>

text \<open>
  The first argument of \<^verbatim>\<open>get\<close> and \<^verbatim>\<open>post\<close> has type \<^verbatim>\<open>URL | string\<close>.
  String concatenation turns a \<^verbatim>\<open>URL\<close> object into its serialisation (\<^verbatim>\<open>href\<close>).
\<close>

datatype url = URLObject js_string | URLString js_string

fun url_to_string :: "url \<Rightarrow> js_string" where
  "url_to_string (URLObject href) = href"
| "url_to_string (URLString s) = s"

text \<open>
  Modelled from the spec: the request configuration (\<^verbatim>\<open>RequestInit\<close>, declared by the
  platform, spec section 3: "optional configuration: headers, body, method, etc."). Every
  field is optional; the fields beyond the three named here are the record's extension.
\<close>

record RequestInit =
  "method" :: "js_string option"
  body :: "js_string option"
  headers :: "(js_string \<times> js_string) list"

text \<open>
  Modelled from the spec: the response of the transport (spec section 6:
  "response{ status: integer, ok: boolean, headers, body }"). \<^verbatim>\<open>ok\<close> is a getter
  computed from the status: it holds exactly on the success range 200 to 299 (spec glossary).
\<close>

record response =
  status :: nat
  statusText :: js_string
  payload :: js_string

definition ok :: "'r response_scheme \<Rightarrow> bool" where
  "ok r = (200 \<le> status r \<and> status r \<le> 299)"

text \<open>
  A configuration object is passed by reference: the caller and the callee share it. The
  store maps each reference to the object's current fields, and to the attributes that
  decide whether an assignment to its \<^verbatim>\<open>method\<close> property succeeds: whether the object
  is extensible, and whether its \<^verbatim>\<open>method\<close> property, if it has one, is writable. An
  object made by a literal is extensible and its properties are writable; after
  \<^verbatim>\<open>Object.freeze\<close> it is neither, after \<^verbatim>\<open>Object.seal\<close> or
  \<^verbatim>\<open>Object.preventExtensions\<close> it is no longer extensible. The environment also holds
  the error log sink (\<^verbatim>\<open>console.error\<close>) and the record of the calls made to the
  transport, each with the url and the configuration as they were at the call.
\<close>

type_synonym ref = nat

record object_attributes =
  extensible :: bool
  method_writable :: bool

type_synonym 'a request = "url \<times> 'a RequestInit_scheme option"

record 'a env =
  console :: "js_string list"
  heap :: "ref \<Rightarrow> 'a RequestInit_scheme"
  attributes :: "ref \<Rightarrow> object_attributes"
  fetch_log :: "'a request list"

text \<open>
  Modelled from the spec: the external transport (\<^verbatim>\<open>fetch\<close>, spec section 6:
  "request(address, config) \<rightarrow> response"). What the network answers is a parameter: a
  function of the calls made so far and of the present request, which either rejects
  (\<open>Inl\<close>) or resolves with a response (\<open>Inr\<close>). The transport reads the configuration
  and does not write to it. \<open>fetch\<close> records the call and returns the answer.
\<close>

type_synonym ('a, 'r) transport = "'a request list \<Rightarrow> 'a request \<Rightarrow> js_error + 'r response_scheme"

definition deref :: "'a env \<Rightarrow> ref option \<Rightarrow> 'a RequestInit_scheme option" where
  "deref s options = map_option (heap s) options"

definition fetch ::
  "('a, 'r) transport \<Rightarrow> url \<Rightarrow> ref option \<Rightarrow> 'a env \<Rightarrow> (js_error + 'r response_scheme) \<times> 'a env" where
  "fetch net u options s =
     (let req = (u, deref s options)
      in (net (fetch_log s) req, s\<lparr>fetch_log := fetch_log s @ [req]\<rparr>))"

text \<open>Modelled from the spec: \<^verbatim>\<open>console.error\<close> appends one entry to the error log sink.\<close>

definition console_error :: "js_string \<Rightarrow> 'a env \<Rightarrow> 'a env" where
  "console_error message s = s\<lparr>console := console s @ [message]\<rparr>"

section \<open>The functions of the module\<close>

text \<open>
  \<^verbatim>\<open>
  export function logAndThrow(message: string): never {
      console.error(message);
      throw new Error(message);
  }
  \<close>
  The result type is a sum; the return type \<^verbatim>\<open>never\<close> has no value, so the right
  summand is only ever a type parameter.
\<close>

definition logAndThrow :: "js_string \<Rightarrow> 'a env \<Rightarrow> (js_error + 'v) \<times> 'a env" where
  "logAndThrow message s =
     (let s1 = console_error message s
      in (Inl (Error message), s1))"

text \<open>
  \<^verbatim>\<open>
  export async function get(url: URL | string, options?: RequestInit) {
      const response = await fetch(url, options);
      if (!response.ok) {
          throw new Error(response.status + " could not get URL " + url);
      }
      return response;
  }
  \<close>
  The result is the settled state of the returned promise: \<open>Inl\<close> when it rejects,
  \<open>Inr\<close> when it resolves. \<^verbatim>\<open>await\<close> on a rejected promise rethrows.
\<close>

definition get ::
  "('a, 'r) transport \<Rightarrow> url \<Rightarrow> ref option \<Rightarrow> 'a env \<Rightarrow> (js_error + 'r response_scheme) \<times> 'a env" where
  "get net u options s =
     (case fetch net u options s of
        (Inl e, s1) \<Rightarrow> (Inl e, s1)
      | (Inr response, s1) \<Rightarrow>
          if \<not> ok response
          then (Inl (Error (number_to_string (status response) @ lit '' could not get URL ''
                            @ url_to_string u)), s1)
          else (Inr response, s1))"




section \<open>The built-ins used by parseJSON\<close>

text \<open>
  \<^verbatim>\<open>parseJSON\<close> calls three built-ins of the host language: \<^verbatim>\<open>JSON.parse\<close> with a
  reviver, \<^verbatim>\<open>Number.isInteger\<close> and \<^verbatim>\<open>BigInt\<close>. They are modelled after the language
  standard (ECMA-262), \<^verbatim>\<open>JSON.parse\<close> with source text access: the reviver receives a
  third argument (\<^verbatim>\<open>context\<close>) whose \<^verbatim>\<open>source\<close> property is the literal text of the
  primitive value being revived, and is absent for arrays and objects.
\<close>

subsection \<open>Numbers\<close>

text \<open>
  A Number is an IEEE 754 binary64 value. A finite one other than the negative zero is
  written as the real number it denotes.
\<close>

datatype number = Finite real | NegZero | PosInfinity | NegInfinity | NaN

datatype jsval =
    Undefined
  | Null
  | Boolean bool
  | Number number
  | BigInt int
  | String js_string
  | Array "jsval list"
  | Object "(js_string \<times> jsval) list"

definition ch :: "char \<Rightarrow> nat" where
  "ch c = of_char c"

definition is_digit :: "nat \<Rightarrow> bool" where
  "is_digit c = (ch CHR ''0'' \<le> c \<and> c \<le> ch CHR ''9'')"

definition digits_value :: "js_string \<Rightarrow> int" where
  "digits_value ds = foldl (\<lambda>a c. 10 * a + int (c - ch CHR ''0'')) 0 ds"

definition pow2 :: "int \<Rightarrow> real" where
  "pow2 k = (if 0 \<le> k then 2 ^ nat k else 1 / 2 ^ nat (- k))"

text \<open>The integer nearest to \<open>n / d\<close> (for \<open>d > 0\<close>), a tie going to the even one.\<close>

definition round_half_even :: "int \<Rightarrow> int \<Rightarrow> int" where
  "round_half_even n d =
     (let q = n div d; r = n mod d
      in if 2 * r < d then q else if d < 2 * r then q + 1 else if even q then q else q + 1)"

text \<open>The exponent \<open>e\<close> with \<open>2 ^ e \<le> n / d < 2 ^ (e + 1)\<close>, for positive \<open>n\<close> and \<open>d\<close>.\<close>

definition binade :: "int \<Rightarrow> int \<Rightarrow> int" where
  "binade n d =
     (let k = bitlen n - bitlen d
      in if (if 0 \<le> k then d * 2 ^ nat k \<le> n else d \<le> n * 2 ^ nat (- k)) then k else k - 1)"

text \<open>
  The binary64 value nearest to the positive rational number \<open>n / d\<close>: 53 significant bits, the
  exponent not below that of the subnormals, ties to even; \<open>None\<close> when the rounded value
  is out of range (the result is then an infinity).
\<close>

definition round_double :: "int \<Rightarrow> int \<Rightarrow> real option" where
  "round_double n d =
     (let e = max (binade n d) (- 1022);
          s = e - 52;
          m = (if 0 \<le> s then round_half_even n (d * 2 ^ nat s)
               else round_half_even (n * 2 ^ nat (- s)) d);
          y = of_int m * pow2 s
      in if pow2 1024 \<le> y then None else Some y)"

text \<open>
  The Number denoted by a JSON number literal with sign \<open>neg\<close>, digits \<open>ds\<close> (integer
  and fraction part together) and decimal exponent \<open>p\<close>.
\<close>

definition number_value :: "bool \<Rightarrow> js_string \<Rightarrow> int \<Rightarrow> number" where
  "number_value neg ds p =
     (let n = digits_value ds
      in if n = 0 then (if neg then NegZero else Finite 0)
         else (case round_double (n * 10 ^ nat (max p 0)) (10 ^ nat (max (- p) 0)) of
                 None \<Rightarrow> if neg then NegInfinity else PosInfinity
               | Some y \<Rightarrow> if y = 0 then (if neg then NegZero else Finite 0)
                          else Finite (if neg then - y else y)))"

text \<open>\<^verbatim>\<open>Number.isInteger(value)\<close>: the value is a Number, finite and integral.\<close>

definition Number_isInteger :: "jsval \<Rightarrow> bool" where
  "Number_isInteger v =
     (case v of
        Number (Finite q) \<Rightarrow> of_int \<lfloor>q\<rfloor> = q
      | Number NegZero \<Rightarrow> True
      | _ \<Rightarrow> False)"

subsection \<open>The JSON lexical grammar\<close>

text \<open>
  A primitive value of a JSON text, and the tokens: the six structural characters and
  the primitive values, each with the source text it was read from.
\<close>

datatype prim = PNull | PBool bool | PNum number | PStr js_string

fun prim_value :: "prim \<Rightarrow> jsval" where
  "prim_value PNull = Null"
| "prim_value (PBool b) = Boolean b"
| "prim_value (PNum x) = Number x"
| "prim_value (PStr s) = String s"

datatype token =
    LBrace | RBrace | LBracket | RBracket | Colon | Comma
  | Prim prim js_string

definition is_ws :: "nat \<Rightarrow> bool" where
  "is_ws c = (c = 9 \<or> c = 10 \<or> c = 13 \<or> c = 32)"

definition is_hex :: "nat \<Rightarrow> bool" where
  "is_hex c = (is_digit c \<or> (ch CHR ''A'' \<le> c \<and> c \<le> ch CHR ''F'')
               \<or> (ch CHR ''a'' \<le> c \<and> c \<le> ch CHR ''f''))"

definition hex_value :: "nat \<Rightarrow> nat" where
  "hex_value c =
     (if c \<le> ch CHR ''9'' then c - ch CHR ''0''
      else if c \<le> ch CHR ''F'' then c - ch CHR ''A'' + 10
      else c - ch CHR ''a'' + 10)"

text \<open>The character after a backslash (0x5C) in a string; 0x22 is the double quote.\<close>

definition escape :: "nat \<Rightarrow> nat option" where
  "escape e =
     (if e = ch (CHR 0x22) then Some (ch (CHR 0x22))
      else if e = ch (CHR 0x5C) then Some (ch (CHR 0x5C))
      else if e = ch CHR ''/'' then Some (ch CHR ''/'')
      else if e = ch CHR ''b'' then Some 8
      else if e = ch CHR ''f'' then Some 12
      else if e = ch CHR ''n'' then Some 10
      else if e = ch CHR ''r'' then Some 13
      else if e = ch CHR ''t'' then Some 9
      else None)"

text \<open>
  The rest of a string after its opening quote: the string's value and the number of code
  units read, closing quote included. Control characters below 0x20 may not occur raw.
\<close>

fun lex_string :: "js_string \<Rightarrow> (js_string \<times> nat) option" where
  "lex_string [] = None"
| "lex_string (c # cs) =
     (if c = ch (CHR 0x22) then Some ([], 1)
      else if c = ch (CHR 0x5C) then
        (case cs of
           [] \<Rightarrow> None
         | e # r \<Rightarrow>
             if e = ch CHR ''u'' then
               (case r of
                  h1 # h2 # h3 # h4 # r' \<Rightarrow>
                    if is_hex h1 \<and> is_hex h2 \<and> is_hex h3 \<and> is_hex h4
                    then map_option
                           (\<lambda>(v, k). ((((hex_value h1 * 16 + hex_value h2) * 16 + hex_value h3) * 16
                                        + hex_value h4) # v, k + 6))
                           (lex_string r')
                    else None
                | _ \<Rightarrow> None)
             else (case escape e of
                     None \<Rightarrow> None
                   | Some u \<Rightarrow> map_option (\<lambda>(v, k). (u # v, k + 2)) (lex_string r)))
      else if c < 32 then None
      else map_option (\<lambda>(v, k). (c # v, k + 1)) (lex_string cs))"

text \<open>
  A number literal at the head of the text: an optional minus, an integer part without a
  superfluous leading zero, an optional fraction, an optional exponent. The result is the
  Number and the count of code units read.
\<close>

definition lex_number :: "js_string \<Rightarrow> (number \<times> nat) option" where
  "lex_number cs =
     (let neg = (take 1 cs = [ch CHR ''-'']);
          cs1 = (if neg then drop 1 cs else cs);
          ip = takeWhile is_digit cs1;
          cs2 = dropWhile is_digit cs1;
          has_frac = (take 1 cs2 = [ch CHR ''.'']);
          fp = (if has_frac then takeWhile is_digit (drop 1 cs2) else []);
          cs3 = (if has_frac then dropWhile is_digit (drop 1 cs2) else cs2);
          has_exp = (take 1 cs3 = [ch CHR ''e''] \<or> take 1 cs3 = [ch CHR ''E'']);
          cs4 = (if has_exp then drop 1 cs3 else cs3);
          eneg = (has_exp \<and> take 1 cs4 = [ch CHR ''-'']);
          cs5 = (if has_exp \<and> (take 1 cs4 = [ch CHR ''-''] \<or> take 1 cs4 = [ch CHR ''+''])
                 then drop 1 cs4 else cs4);
          ep = (if has_exp then takeWhile is_digit cs5 else []);
          cs6 = (if has_exp then dropWhile is_digit cs5 else cs5)
      in if ip = [] \<or> (1 < length ip \<and> take 1 ip = [ch CHR ''0''])
            \<or> (has_frac \<and> fp = []) \<or> (has_exp \<and> ep = [])
         then None
         else Some (number_value neg (ip @ fp)
                      ((if eneg then - digits_value ep else digits_value ep) - int (length fp)),
                    length cs - length cs6))"

fun tokenize :: "js_string \<Rightarrow> token list option" where
  "tokenize [] = Some []"
| "tokenize (c # cs) =
     (if is_ws c then tokenize cs
      else if c = ch CHR ''{'' then map_option (Cons LBrace) (tokenize cs)
      else if c = ch CHR ''}'' then map_option (Cons RBrace) (tokenize cs)
      else if c = ch CHR ''['' then map_option (Cons LBracket) (tokenize cs)
      else if c = ch CHR '']'' then map_option (Cons RBracket) (tokenize cs)
      else if c = ch CHR '':'' then map_option (Cons Colon) (tokenize cs)
      else if c = ch CHR '','' then map_option (Cons Comma) (tokenize cs)
      else if c = ch (CHR 0x22) then
        (case lex_string cs of
           None \<Rightarrow> None
         | Some (v, k) \<Rightarrow>
             map_option (Cons (Prim (PStr v) (take (Suc k) (c # cs)))) (tokenize (drop k cs)))
      else if c = ch CHR ''-'' \<or> is_digit c then
        (case lex_number (c # cs) of
           None \<Rightarrow> None
         | Some (x, k) \<Rightarrow>
             map_option (Cons (Prim (PNum x) (take k (c # cs)))) (tokenize (drop (k - 1) cs)))
      else if take 4 (c # cs) = lit ''true'' then
        map_option (Cons (Prim (PBool True) (lit ''true''))) (tokenize (drop 3 cs))
      else if take 5 (c # cs) = lit ''false'' then
        map_option (Cons (Prim (PBool False) (lit ''false''))) (tokenize (drop 4 cs))
      else if take 4 (c # cs) = lit ''null'' then
        map_option (Cons (Prim PNull (lit ''null''))) (tokenize (drop 3 cs))
      else None)"

subsection \<open>The JSON syntactic grammar\<close>

text \<open>
  The parse of a JSON text, as the reviver pass sees it: a primitive with its source text, an
  array with its elements, an object with its own properties. A property written twice
  keeps its first position and its last value (\<open>create_data_property\<close>); the properties
  of an object are enumerated with the array indices first, in ascending order, then the
  other keys in order of creation (\<open>own_property_order\<close>).
\<close>

datatype node =
    Leaf prim js_string
  | ArrN "node list"
  | ObjN "(js_string \<times> node) list"

fun create_data_property :: "(js_string \<times> 'v) list \<Rightarrow> js_string \<Rightarrow> 'v \<Rightarrow> (js_string \<times> 'v) list" where
  "create_data_property [] k v = [(k, v)]"
| "create_data_property ((k', v') # ps) k v =
     (if k' = k then (k, v) # ps else (k', v') # create_data_property ps k v)"

definition is_array_index :: "js_string \<Rightarrow> bool" where
  "is_array_index k =
     (k \<noteq> [] \<and> list_all is_digit k \<and> (k = [ch CHR ''0''] \<or> take 1 k \<noteq> [ch CHR ''0''])
      \<and> digits_value k < 2 ^ 32 - 1)"

definition own_property_order :: "(js_string \<times> 'v) list \<Rightarrow> (js_string \<times> 'v) list" where
  "own_property_order ps =
     sort_key (\<lambda>p. digits_value (fst p)) (filter (\<lambda>p. is_array_index (fst p)) ps)
     @ filter (\<lambda>p. \<not> is_array_index (fst p)) ps"

text \<open>
  The parser reads the tokens from left to right with a stack of the arrays and objects
  that are still open. \<open>expect\<close> says what may come next.
\<close>

datatype frame =
    ArrFrame "node list"
  | ObjFrame "(js_string \<times> node) list" "js_string option"

datatype expect = Value | ValueOrClose | Key | KeyOrClose | ColonNext | CommaOrClose

datatype pstate = Parsing expect "frame list" | Finished node

text \<open>A value is complete: it is the whole text, or goes into the innermost open container.\<close>

fun reduce :: "node \<Rightarrow> frame list \<Rightarrow> pstate option" where
  "reduce n [] = Some (Finished n)"
| "reduce n (ArrFrame ns # st) = Some (Parsing CommaOrClose (ArrFrame (ns @ [n]) # st))"
| "reduce n (ObjFrame ps (Some k) # st) =
     Some (Parsing CommaOrClose (ObjFrame (create_data_property ps k n) None # st))"
| "reduce n (ObjFrame ps None # st) = None"

fun step :: "pstate \<Rightarrow> token \<Rightarrow> pstate option" where
  "step (Finished n) t = None"
| "step (Parsing e st) (Prim p src) =
     (if e = Value \<or> e = ValueOrClose then reduce (Leaf p src) st
      else if e = Key \<or> e = KeyOrClose then
        (case (p, st) of
           (PStr k, ObjFrame ps _ # st') \<Rightarrow> Some (Parsing ColonNext (ObjFrame ps (Some k) # st'))
         | _ \<Rightarrow> None)
      else None)"
| "step (Parsing e st) LBracket =
     (if e = Value \<or> e = ValueOrClose then Some (Parsing ValueOrClose (ArrFrame [] # st)) else None)"
| "step (Parsing e st) LBrace =
     (if e = Value \<or> e = ValueOrClose then Some (Parsing KeyOrClose (ObjFrame [] None # st)) else None)"
| "step (Parsing e st) RBracket =
     (case st of
        ArrFrame ns # st' \<Rightarrow>
          if e = ValueOrClose \<or> e = CommaOrClose then reduce (ArrN ns) st' else None
      | _ \<Rightarrow> None)"
| "step (Parsing e st) RBrace =
     (case st of
        ObjFrame ps _ # st' \<Rightarrow>
          if e = KeyOrClose \<or> e = CommaOrClose then reduce (ObjN (own_property_order ps)) st' else None
      | _ \<Rightarrow> None)"
| "step (Parsing e st) Comma =
     (if e = CommaOrClose then
        (case st of
           ArrFrame _ # _ \<Rightarrow> Some (Parsing Value st)
         | ObjFrame _ _ # _ \<Rightarrow> Some (Parsing Key st)
         | [] \<Rightarrow> None)
      else None)"
| "step (Parsing e st) Colon =
     (if e = ColonNext then Some (Parsing Value st) else None)"

fun parse_tokens :: "pstate \<Rightarrow> token list \<Rightarrow> node option" where
  "parse_tokens (Finished n) [] = Some n"
| "parse_tokens (Parsing e st) [] = None"
| "parse_tokens s (t # ts) = (case step s t of None \<Rightarrow> None | Some s' \<Rightarrow> parse_tokens s' ts)"

text \<open>A text is well-formed JSON exactly when \<open>parse_text\<close> yields a parse.\<close>

definition parse_text :: "js_string \<Rightarrow> node option" where
  "parse_text text =
     (case tokenize text of None \<Rightarrow> None | Some ts \<Rightarrow> parse_tokens (Parsing Value []) ts)"

subsection \<open>JSON.parse\<close>

text \<open>The value a parse denotes: what \<^verbatim>\<open>JSON.parse\<close> returns when no reviver is given.\<close>

fun value_of :: "node \<Rightarrow> jsval"
  and values_of :: "node list \<Rightarrow> jsval list"
  and entries_of :: "(js_string \<times> node) list \<Rightarrow> (js_string \<times> jsval) list" where
  "value_of (Leaf p src) = prim_value p"
| "value_of (ArrN ns) = Array (values_of ns)"
| "value_of (ObjN es) = Object (entries_of es)"
| "values_of [] = []"
| "values_of (n # ns) = value_of n # values_of ns"
| "entries_of [] = []"
| "entries_of ((k, n) # es) = (k, value_of n) # entries_of es"

text \<open>
  The reviver pass (\<^verbatim>\<open>InternalizeJSONProperty\<close>) visits the parse bottom-up: the elements
  of an array by index, the properties of an object in their enumeration order, then the
  container itself. The reviver is called with the property name, the value and the
  context; the context of a primitive holds its source text, that of an array or object is
  empty. The reviver's result replaces the value; a property revived to \<^verbatim>\<open>undefined\<close> is
  deleted from its object (in an array the position stays and reads \<^verbatim>\<open>undefined\<close>). The
  first exception the reviver throws ends the pass. The reviver here is a function of its
  three arguments: it does not use the holder it is called on.
\<close>

record reviver_context =
  source :: "js_string option"

type_synonym reviver = "js_string \<Rightarrow> jsval \<Rightarrow> reviver_context \<Rightarrow> js_error + jsval"

fun internalize :: "reviver \<Rightarrow> js_string \<Rightarrow> node \<Rightarrow> js_error + jsval"
  and internalize_elements :: "reviver \<Rightarrow> nat \<Rightarrow> node list \<Rightarrow> js_error + jsval list"
  and internalize_entries ::
    "reviver \<Rightarrow> (js_string \<times> node) list \<Rightarrow> js_error + (js_string \<times> jsval) list" where
  "internalize rv name (Leaf p src) = rv name (prim_value p) \<lparr>source = Some src\<rparr>"
| "internalize rv name (ArrN ns) =
     (case internalize_elements rv 0 ns of
        Inl e \<Rightarrow> Inl e
      | Inr vs \<Rightarrow> rv name (Array vs) \<lparr>source = None\<rparr>)"
| "internalize rv name (ObjN es) =
     (case internalize_entries rv es of
        Inl e \<Rightarrow> Inl e
      | Inr ps \<Rightarrow> rv name (Object ps) \<lparr>source = None\<rparr>)"
| "internalize_elements rv i [] = Inr []"
| "internalize_elements rv i (n # ns) =
     (case internalize rv (number_to_string i) n of
        Inl e \<Rightarrow> Inl e
      | Inr v \<Rightarrow>
          (case internalize_elements rv (Suc i) ns of
             Inl e \<Rightarrow> Inl e
           | Inr vs \<Rightarrow> Inr (v # vs)))"
| "internalize_entries rv [] = Inr []"
| "internalize_entries rv ((k, n) # es) =
     (case internalize rv k n of
        Inl e \<Rightarrow> Inl e
      | Inr v \<Rightarrow>
          (case internalize_entries rv es of
             Inl e \<Rightarrow> Inl e
           | Inr ps \<Rightarrow> Inr (if v = Undefined then ps else (k, v) # ps)))"

text \<open>
  \<^verbatim>\<open>JSON.parse(text, reviver)\<close>: a \<^verbatim>\<open>SyntaxError\<close> when the text is not well-formed;
  otherwise the value of the parse, passed through the reviver if there is one, starting
  at the root under the empty property name.
\<close>

definition JSON_parse :: "js_string \<Rightarrow> reviver option \<Rightarrow> js_error + jsval" where
  "JSON_parse text reviver =
     (case parse_text text of
        None \<Rightarrow> Inl SyntaxError
      | Some n \<Rightarrow>
          (case reviver of
             None \<Rightarrow> Inr (value_of n)
           | Some rv \<Rightarrow> internalize rv [] n))"

subsection \<open>BigInt\<close>

text \<open>
  \<^verbatim>\<open>BigInt(value)\<close> on a string: white space is trimmed; the empty string is zero; the
  rest must be decimal digits with an optional sign, or an unsigned literal in base 16, 8
  or 2 with its prefix. A decimal point or an exponent is a \<^verbatim>\<open>SyntaxError\<close>.
  \<^verbatim>\<open>BigInt(undefined)\<close> is a \<^verbatim>\<open>TypeError\<close>.
\<close>

definition is_str_white_space :: "nat \<Rightarrow> bool" where
  "is_str_white_space c =
     ((9 \<le> c \<and> c \<le> 13) \<or> c = 32 \<or> c = 160 \<or> c = 5760 \<or> (8192 \<le> c \<and> c \<le> 8202)
      \<or> c = 8232 \<or> c = 8233 \<or> c = 8239 \<or> c = 8287 \<or> c = 12288 \<or> c = 65279)"

definition trim :: "js_string \<Rightarrow> js_string" where
  "trim s = rev (dropWhile is_str_white_space (rev (dropWhile is_str_white_space s)))"

definition radix_value :: "nat \<Rightarrow> js_string \<Rightarrow> int option" where
  "radix_value r ds =
     (if ds = [] \<or> \<not> list_all (\<lambda>c. is_hex c \<and> hex_value c < r) ds then None
      else Some (foldl (\<lambda>a c. int r * a + int (hex_value c)) 0 ds))"

definition StringToBigInt :: "js_string \<Rightarrow> int option" where
  "StringToBigInt str =
     (let t = trim str
      in if t = [] then Some 0
         else if take 2 t = lit ''0x'' \<or> take 2 t = lit ''0X'' then radix_value 16 (drop 2 t)
         else if take 2 t = lit ''0o'' \<or> take 2 t = lit ''0O'' then radix_value 8 (drop 2 t)
         else if take 2 t = lit ''0b'' \<or> take 2 t = lit ''0B'' then radix_value 2 (drop 2 t)
         else if take 1 t = lit ''-'' then map_option uminus (radix_value 10 (drop 1 t))
         else if take 1 t = lit ''+'' then radix_value 10 (drop 1 t)
         else radix_value 10 t)"

definition BigInt_of :: "js_string option \<Rightarrow> js_error + jsval" where
  "BigInt_of arg =
     (case arg of
        None \<Rightarrow> Inl TypeError
      | Some s \<Rightarrow> (case StringToBigInt s of None \<Rightarrow> Inl SyntaxError | Some i \<Rightarrow> Inr (BigInt i)))"

section \<open>parseJSON\<close>

text \<open>
  \<^verbatim>\<open>
  export function parseJSON(json: string): any {
      function revive(key: string, value: any, context: any) {
          if (Number.isInteger(value)) {
              return BigInt(context.source);
          } else {
              return value;
          }
      }
      return JSON.parse(json, revive as any);
  }
  \<close>
\<close>

definition revive :: reviver where
  "revive key v context =
     (if Number_isInteger v then BigInt_of (source context)
      else Inr v)"

definition parseJSON :: "js_string \<Rightarrow> js_error + jsval" where
  "parseJSON json = JSON_parse json (Some revive)"

text \<open>
  A document "whose leaves are all non-integer-valued", read on the document as written.
  A number literal denotes \<open>n \<times> 10 ^ p\<close>, with \<open>n\<close> its digits (integer and fraction part
  together, with the sign) and \<open>p\<close> its exponent less the length of the fraction part;
  this value is an integer when \<open>p\<close> is not negative or the power of ten divides \<open>n\<close>.
  The parse keeps the text of each literal, so the property is stated on the parse.
\<close>

definition written_number :: "js_string \<Rightarrow> int \<times> int" where
  "written_number src =
     (let neg = (take 1 src = [ch CHR ''-'']);
          unsigned = (if neg then drop 1 src else src);
          is_mantissa = (\<lambda>c. c \<noteq> ch CHR ''e'' \<and> c \<noteq> ch CHR ''E'');
          mantissa = takeWhile is_mantissa unsigned;
          exponent = drop 1 (dropWhile is_mantissa unsigned);
          ip = takeWhile is_digit mantissa;
          fp = drop 1 (dropWhile is_digit mantissa);
          eneg = (take 1 exponent = [ch CHR ''-'']);
          ep = (if eneg \<or> take 1 exponent = [ch CHR ''+''] then drop 1 exponent else exponent);
          n = digits_value (ip @ fp)
      in (if neg then - n else n,
          (if eneg then - digits_value ep else digits_value ep) - int (length fp)))"

definition written_integral :: "js_string \<Rightarrow> bool" where
  "written_integral src =
     (case written_number src of (n, p) \<Rightarrow> 0 \<le> p \<or> 10 ^ nat (- p) dvd n)"

fun written_non_integer :: "node \<Rightarrow> bool"
  and written_non_integer_list :: "node list \<Rightarrow> bool"
  and written_non_integer_entries :: "(js_string \<times> node) list \<Rightarrow> bool" where
  "written_non_integer (Leaf (PNum x) src) = (\<not> written_integral src)"
| "written_non_integer (Leaf PNull src) = True"
| "written_non_integer (Leaf (PBool b) src) = True"
| "written_non_integer (Leaf (PStr t) src) = True"
| "written_non_integer (ArrN ns) = written_non_integer_list ns"
| "written_non_integer (ObjN es) = written_non_integer_entries es"
| "written_non_integer_list [] = True"
| "written_non_integer_list (n # ns) = (written_non_integer n \<and> written_non_integer_list ns)"
| "written_non_integer_entries [] = True"
| "written_non_integer_entries ((k, n) # es) =
     (written_non_integer n \<and> written_non_integer_entries es)"

text \<open>
  The same read on the values of the standard parse: no Number in the value is integral
  (and no BigInt occurs). It differs from the reading above where rounding to binary64
  turns a literal that is not an integer into an integral Number.
\<close>

fun integer_free :: "jsval \<Rightarrow> bool"
  and integer_free_list :: "jsval list \<Rightarrow> bool"
  and integer_free_props :: "(js_string \<times> jsval) list \<Rightarrow> bool" where
  "integer_free (Array vs) = integer_free_list vs"
| "integer_free (Object ps) = integer_free_props ps"
| "integer_free Undefined = True"
| "integer_free Null = True"
| "integer_free (Boolean b) = True"
| "integer_free (Number x) = (\<not> Number_isInteger (Number x))"
| "integer_free (BigInt i) = False"
| "integer_free (String s) = True"
| "integer_free_list [] = True"
| "integer_free_list (v # vs) = (integer_free v \<and> integer_free_list vs)"
| "integer_free_props [] = True"
| "integer_free_props ((k, v) # ps) = (integer_free v \<and> integer_free_props ps)"

section \<open>Example inputs\<close>

text \<open>A caller's configuration asking for \<^verbatim>\<open>GET\<close>, and three transports: one answering
  every request with a fixed status, one that rejects the first request made and would
  answer the second.\<close>

definition example_url :: url where
  "example_url = URLString (lit ''https://api.example/x'')"

definition example_env :: "unit env" where
  "example_env =
     \<lparr>console = [],
      heap = (\<lambda>_. \<lparr>method = Some (lit ''GET''), body = Some (lit ''x''), headers = []\<rparr>),
      attributes = (\<lambda>_. \<lparr>extensible = True, method_writable = True\<rparr>),
      fetch_log = []\<rparr>"


definition answer :: "nat \<Rightarrow> (unit, unit) transport" where
  "answer code = (\<lambda>_ _. Inr \<lparr>status = code, statusText = [], payload = []\<rparr>)"


text \<open>JSON documents: one with an integer beyond the 53 bits of a Number, two whose number
  is integral but not written as an integer, one that is not well-formed, one whose
  number is not integral as written but is rounded to an integral Number, and one
  without any integral number.\<close>

definition large_integer_document :: js_string where
  \<open>large_integer_document = lit ''{"a": 123456789012345678}''\<close>

definition decimal_point_document :: js_string where
  \<open>decimal_point_document = lit ''{"a": 1.0}''\<close>

definition exponent_document :: js_string where
  \<open>exponent_document = lit ''{"a": 1e2}''\<close>

definition malformed_document :: js_string where
  \<open>malformed_document = lit ''{''\<close>

definition rounded_to_integer_document :: js_string where
  \<open>rounded_to_integer_document = lit ''[4503599627370496.5]''\<close>

definition integer_free_document :: js_string where
  \<open>integer_free_document = lit ''{"s": "x", "t": true, "n": null, "f": [1.5, -0.25]}''\<close>

text \<open>Reading a decimal numeral back, to say what \<open>number_to_string\<close> produces.\<close>

fun decimal_value :: "js_string \<Rightarrow> nat" where
  "decimal_value ds = foldl (\<lambda>a d. 10 * a + (d - 48)) 0 ds"

section \<open>Properties of the helpers\<close>

lemma number_to_string_404: "number_to_string 404 = lit ''404''"
  by (simp add: number_to_string.simps lit_def digit_char_def)

lemma decimal_value_number_to_string: "decimal_value (number_to_string n) = n"
proof (induction n rule: number_to_string.induct)
  case (1 n)
  show ?case
  proof (cases "n < 10")
    case True
    then show ?thesis by (simp add: number_to_string.simps [of n] digit_char_def)
  next
    case False
    with 1 show ?thesis by (simp add: number_to_string.simps [of n] digit_char_def)
  qed
qed

lemma sublist_last_part: "sublist zs (xs @ ys @ zs)"
  by (metis append_assoc sublist_appendI append_Nil2)

lemma sublist_first_part: "sublist xs (xs @ ys)"
  by (metis sublist_appendI append_Nil)

section \<open>logAndThrow\<close>

text \<open>
  Claim C4. For every message, \<open>logAndThrow\<close> appends the message to the error log sink
  exactly once (the sink grows by one entry, which is the message) and the outcome is the
  failure \<open>Error message\<close>; the outcome is never a returned value.
\<close>

theorem logAndThrow_logs_once_then_raises:
  "logAndThrow msg s = (Inl (Error msg), s\<lparr>console := console s @ [msg]\<rparr>)
   \<and> length (console (snd (logAndThrow msg s))) = Suc (length (console s))
   \<and> count_list (console (snd (logAndThrow msg s))) msg = Suc (count_list (console s) msg)"
  by (simp add: logAndThrow_def console_error_def)

section \<open>get and post\<close>

text \<open>
  Claim C3. When the transport resolves with a response \<open>r\<close>, \<open>get\<close> returns \<open>r\<close> if
  its status is in the success range 200 to 299; otherwise it raises an \<open>Error\<close> whose
  message is the decimal status, the text " could not get URL " and the url, so the
  message contains both the status code and the url.
\<close>

theorem get_status_contract:
  assumes "net (fetch_log s) (u, deref s options) = Inr r"
  shows "(200 \<le> status r \<and> status r \<le> 299 \<longrightarrow> fst (get net u options s) = Inr r)
       \<and> (\<not> (200 \<le> status r \<and> status r \<le> 299) \<longrightarrow>
            (\<exists>msg. fst (get net u options s) = Inl (Error msg)
                 \<and> msg = number_to_string (status r) @ lit '' could not get URL '' @ url_to_string u
                 \<and> sublist (number_to_string (status r)) msg
                 \<and> sublist (url_to_string u) msg))"
  using assms
  by (auto simp add: get_def fetch_def ok_def Let_def sublist_last_part sublist_first_part)

theorem get_status_contract_witness:
  "fst (get (answer 200) example_url None example_env)
     = Inr \<lparr>status = 200, statusText = [], payload = []\<rparr>
   \<and> fst (get (answer 404) example_url None example_env)
       = Inl (Error (lit ''404 could not get URL https://api.example/x''))"
  using get_status_contract [of "answer 200" example_env example_url None
          "\<lparr>status = 200, statusText = [], payload = []\<rparr>"]
        get_status_contract [of "answer 404" example_env example_url None
          "\<lparr>status = 404, statusText = [], payload = []\<rparr>"]
  by (simp add: answer_def example_url_def number_to_string_404 lit_def)




text \<open>
  Claim C7. For every url and optional configuration, the request \<open>get\<close> hands to the
  transport is the url with the caller's configuration as it stands in the store, and
  \<open>get\<close> leaves the store (hence every field of that configuration) and the log sink
  as they were.
\<close>

theorem get_passes_configuration_unmodified:
  "fetch_log (snd (get net u options s)) = fetch_log s @ [(u, map_option (heap s) options)]
   \<and> heap (snd (get net u options s)) = heap s
   \<and> console (snd (get net u options s)) = console s"
  by (simp add: get_def fetch_def deref_def Let_def split: sum.splits)







section \<open>parseJSON: evaluation of the example documents\<close>

text \<open>The definitions to unfold when a concrete text is evaluated.\<close>

lemmas char_defs = lit_def ch_def is_ws_def is_digit_def is_hex_def hex_value_def escape_def
lemmas number_defs = lex_number_def number_value_def round_double_def binade_def
  round_half_even_def pow2_def digits_value_def compute_bitlen Let_def
lemmas object_defs = own_property_order_def is_array_index_def
lemmas bigint_defs = BigInt_of_def StringToBigInt_def trim_def is_str_white_space_def radix_value_def

lemma parse_large_integer_document:
  "parse_text large_integer_document
     = Some (ObjN [(lit ''a'', Leaf (PNum (Finite 123456789012345680)) (lit ''123456789012345678''))])"
  by (simp add: parse_text_def large_integer_document_def char_defs number_defs object_defs
      cong: let_weak_cong)

lemma parse_decimal_point_document:
  "parse_text decimal_point_document = Some (ObjN [(lit ''a'', Leaf (PNum (Finite 1)) (lit ''1.0''))])"
  by (simp add: parse_text_def decimal_point_document_def char_defs number_defs object_defs
      cong: let_weak_cong)

lemma parse_exponent_document:
  "parse_text exponent_document = Some (ObjN [(lit ''a'', Leaf (PNum (Finite 100)) (lit ''1e2''))])"
  by (simp add: parse_text_def exponent_document_def char_defs number_defs object_defs
      cong: let_weak_cong)

lemma parse_malformed_document: "parse_text malformed_document = None"
  by (simp add: parse_text_def malformed_document_def char_defs)

lemma parse_integer_free_document:
  "parse_text integer_free_document
     = Some (ObjN [(lit ''s'', Leaf (PStr (lit ''x'')) (lit (CHR 0x22 # ''x'' @ [CHR 0x22]))),
                   (lit ''t'', Leaf (PBool True) (lit ''true'')),
                   (lit ''n'', Leaf PNull (lit ''null'')),
                   (lit ''f'', ArrN [Leaf (PNum (Finite (3 / 2))) (lit ''1.5''),
                                     Leaf (PNum (Finite (- (1 / 4)))) (lit ''-0.25'')])])"
  by (simp add: parse_text_def integer_free_document_def char_defs number_defs object_defs
      cong: let_weak_cong)

text \<open>The grammar on small texts: what is rejected, what is accepted.\<close>

lemma parse_text_rejects:
  \<open>parse_text (lit ''[1,]'') = None\<close>
  \<open>parse_text (lit ''{"a":1,}'') = None\<close>
  \<open>parse_text (lit ''01'') = None\<close>
  \<open>parse_text (lit ''1.'') = None\<close>
  \<open>parse_text (lit ''tru'') = None\<close>
  \<open>parse_text (lit ''"abc'') = None\<close>
  \<open>parse_text (lit ''[1 2]'') = None\<close>
  \<open>parse_text (lit ''{"a" 1}'') = None\<close>
  \<open>parse_text (lit ''[]]'') = None\<close>
  \<open>parse_text [] = None\<close>
  by (simp_all add: parse_text_def char_defs number_defs cong: let_weak_cong)

lemma parse_text_accepts:
  \<open>parse_text (lit '' [ ] '') = Some (ArrN [])\<close>
  \<open>parse_text (lit ''{}'') = Some (ObjN [])\<close>
  \<open>parse_text (lit ''[[],{}]'') = Some (ArrN [ArrN [], ObjN []])\<close>
  \<open>parse_text (lit ''-0'') = Some (Leaf (PNum NegZero) (lit ''-0''))\<close>
  \<open>parse_text (lit ''{"b":1,"a":2,"b":3}'')
     = Some (ObjN [(lit ''b'', Leaf (PNum (Finite 3)) (lit ''3'')),
                   (lit ''a'', Leaf (PNum (Finite 2)) (lit ''2''))])\<close>
  by (simp_all add: parse_text_def char_defs number_defs object_defs cong: let_weak_cong)

lemma parse_rounded_to_integer_document:
  "parse_text rounded_to_integer_document
     = Some (ArrN [Leaf (PNum (Finite 4503599627370496)) (lit ''4503599627370496.5'')])"
  by (simp add: parse_text_def rounded_to_integer_document_def char_defs number_defs
      cong: let_weak_cong)

text \<open>Literals as written: which denote an integer.\<close>

lemma written_integral_examples:
  "written_integral (lit ''1.0'')"
  "written_integral (lit ''1e2'')"
  "written_integral (lit ''-12.50e1'')"
  "\<not> written_integral (lit ''1.5'')"
  "\<not> written_integral (lit ''-0.25'')"
  "\<not> written_integral (lit ''1e-400'')"
  "\<not> written_integral (lit ''4503599627370496.5'')"
  by (simp_all add: written_integral_def written_number_def char_defs digits_value_def
      cong: let_weak_cong)

section \<open>parseJSON: the reviver on values without integers\<close>

lemma prim_value_defined: "prim_value p \<noteq> Undefined"
  by (cases p) simp_all

lemma value_of_defined: "value_of n \<noteq> Undefined"
  by (cases n) (simp_all add: prim_value_defined)

lemma revive_keeps_non_integer: "\<not> Number_isInteger v \<Longrightarrow> revive key v c = Inr v"
  by (simp add: revive_def)

lemma revive_integer_without_integer_text:
  "Number_isInteger v \<Longrightarrow> StringToBigInt src = None
   \<Longrightarrow> revive key v \<lparr>source = Some src\<rparr> = Inl SyntaxError"
  by (simp add: revive_def BigInt_of_def)

lemma integer_free_not_integer: "integer_free v \<Longrightarrow> \<not> Number_isInteger v"
  by (cases v) (simp_all add: Number_isInteger_def)

lemma internalize_revive_integer_free:
  "integer_free (value_of n) \<Longrightarrow> internalize revive name n = Inr (value_of n)"
  "integer_free_list (values_of ns) \<Longrightarrow> internalize_elements revive i ns = Inr (values_of ns)"
  "integer_free_props (entries_of es) \<Longrightarrow> internalize_entries revive es = Inr (entries_of es)"
proof (induction revive name n and revive i ns and revive es
       rule: internalize_internalize_elements_internalize_entries.induct)
  case (1 name p src)
  then show ?case
    by (simp add: revive_keeps_non_integer integer_free_not_integer)
next
  case (2 name ns)
  then show ?case
    by (simp add: revive_keeps_non_integer Number_isInteger_def)
next
  case (3 name es)
  then show ?case
    by (simp add: revive_keeps_non_integer Number_isInteger_def)
next
  case (4 i)
  show ?case by simp
next
  case (5 i n ns)
  then show ?case by simp
next
  case 6
  show ?case by simp
next
  case (7 k n es)
  then show ?case by (simp add: value_of_defined)
qed

section \<open>parseJSON: the properties\<close>

text \<open>
  Claim C1. For the document \<^verbatim>\<open>{"a": 123456789012345678}\<close>, \<open>parseJSON\<close> returns an
  object whose property "a" is the BigInt 123456789012345678, every digit kept: the
  reviver is handed the literal text of this very number. The standard parse, by
  contrast, holds the Number 123456789012345680 there.
\<close>

theorem parseJSON_large_integer:
  "parseJSON large_integer_document = Inr (Object [(lit ''a'', BigInt 123456789012345678)])
   \<and> JSON_parse large_integer_document None
       = Inr (Object [(lit ''a'', Number (Finite 123456789012345680))])"
  by (simp add: parseJSON_def JSON_parse_def parse_large_integer_document revive_def
      Number_isInteger_def bigint_defs char_defs cong: let_weak_cong)

text \<open>
  Claim C10. The documents \<^verbatim>\<open>{"a": 1.0}\<close> and \<^verbatim>\<open>{"a": 1e2}\<close> are well-formed (the
  standard parse returns the Numbers 1 and 100), yet \<open>parseJSON\<close> raises a
  \<open>SyntaxError\<close> on both: the Number is integral, so the reviver converts the literal
  text to a BigInt, and the text is not that of an integer.
\<close>

theorem parseJSON_integral_literal_not_integer_text_raises:
  "JSON_parse decimal_point_document None = Inr (Object [(lit ''a'', Number (Finite 1))])
   \<and> parseJSON decimal_point_document = Inl SyntaxError
   \<and> JSON_parse exponent_document None = Inr (Object [(lit ''a'', Number (Finite 100))])
   \<and> parseJSON exponent_document = Inl SyntaxError"
  by (simp add: parseJSON_def JSON_parse_def parse_decimal_point_document parse_exponent_document
      revive_def Number_isInteger_def bigint_defs char_defs cong: let_weak_cong)

text \<open>
  Claim C5. For every text that is not well-formed JSON, \<open>parseJSON\<close> raises the parse
  error (\<open>SyntaxError\<close>) and yields no value, partial or other.
\<close>

theorem parseJSON_malformed_raises:
  assumes "parse_text text = None"
  shows "parseJSON text = Inl SyntaxError"
  using assms by (simp add: parseJSON_def JSON_parse_def)

theorem parseJSON_malformed_raises_witness:
  "parse_text malformed_document = None \<and> parseJSON malformed_document = Inl SyntaxError"
  using parseJSON_malformed_raises [OF parse_malformed_document]
  by (simp add: parse_malformed_document)

text \<open>
  Claim C6, as stated, fails. The document \<^verbatim>\<open>[4503599627370496.5]\<close> is well-formed
  and its one leaf is not integer-valued as written, yet the standard parse returns an
  array holding the Number 4503599627370496 (the nearest binary64 value, an integer)
  while \<open>parseJSON\<close> raises a \<open>SyntaxError\<close>: the reviver sees an integral Number and
  hands the literal text to the BigInt conversion.
\<close>

theorem parseJSON_rounded_literal_counterexample:
  "parse_text rounded_to_integer_document
     = Some (ArrN [Leaf (PNum (Finite 4503599627370496)) (lit ''4503599627370496.5'')])
   \<and> written_non_integer
        (ArrN [Leaf (PNum (Finite 4503599627370496)) (lit ''4503599627370496.5'')])
   \<and> JSON_parse rounded_to_integer_document None
       = Inr (Array [Number (Finite 4503599627370496)])
   \<and> parseJSON rounded_to_integer_document = Inl SyntaxError"
  by (simp add: parseJSON_def JSON_parse_def parse_rounded_to_integer_document
      written_integral_def written_number_def
      revive_def Number_isInteger_def bigint_defs char_defs digits_value_def
      number_to_string.simps digit_char_def cong: let_weak_cong)

text \<open>
  Claim C6, amended. For every well-formed document whose standard parse \<open>v\<close> contains no
  integral Number (its leaves are strings, booleans, null and numbers whose binary64
  value is not an integer), \<open>parseJSON\<close> returns that same \<open>v\<close>.
\<close>

theorem parseJSON_agrees_with_standard_parse:
  assumes "JSON_parse text None = Inr v" and "integer_free v"
  shows "parseJSON text = Inr v"
proof (cases "parse_text text")
  case None
  with assms(1) show ?thesis by (simp add: JSON_parse_def)
next
  case (Some n)
  with assms(1) have v: "v = value_of n" by (simp add: JSON_parse_def)
  with assms(2) have "internalize revive [] n = Inr (value_of n)"
    by (simp add: internalize_revive_integer_free(1))
  with Some v show ?thesis by (simp add: parseJSON_def JSON_parse_def)
qed

theorem parseJSON_agrees_with_standard_parse_witness:
  "JSON_parse integer_free_document None
     = Inr (Object [(lit ''s'', String (lit ''x'')), (lit ''t'', Boolean True), (lit ''n'', Null),
                    (lit ''f'', Array [Number (Finite (3 / 2)), Number (Finite (- (1 / 4)))])])
   \<and> integer_free (Object [(lit ''s'', String (lit ''x'')), (lit ''t'', Boolean True), (lit ''n'', Null),
                    (lit ''f'', Array [Number (Finite (3 / 2)), Number (Finite (- (1 / 4)))])])
   \<and> parseJSON integer_free_document
     = Inr (Object [(lit ''s'', String (lit ''x'')), (lit ''t'', Boolean True), (lit ''n'', Null),
                    (lit ''f'', Array [Number (Finite (3 / 2)), Number (Finite (- (1 / 4)))])])"
proof -
  let ?v = "Object [(lit ''s'', String (lit ''x'')), (lit ''t'', Boolean True), (lit ''n'', Null),
                    (lit ''f'', Array [Number (Finite (3 / 2)), Number (Finite (- (1 / 4)))])]"
  have std: "JSON_parse integer_free_document None = Inr ?v"
    by (simp add: JSON_parse_def parse_integer_free_document)
  have free: "integer_free ?v"
    by (simp add: Number_isInteger_def)
  from parseJSON_agrees_with_standard_parse [OF std free] std free show ?thesis
    by simp
qed

end
